theory Spec2Isabelle
  imports Main
begin

section \<open>Kubernetes objects, as far as the controller reads them\<close>

text \<open>
  The node controller of \<^verbatim>\<open>go-controller/pkg/ovn/controller/apbroute/node_controller.go\<close>
  reads a handful of metadata fields of the objects it is handed. A \<^verbatim>\<open>*metav1.Time\<close> is a
  nilable pointer, a Go map and a Go slice are nilable too (and \<^verbatim>\<open>reflect.DeepEqual\<close> tells
  a nil map or slice from an empty one), so each of them is an \<open>option\<close>.
\<close>

type_synonym Time = int

record ObjectMeta =
  Name :: string
  Namespace :: string
  ResourceVersion :: string
  Generation :: int
  DeletionTimestamp :: "Time option"
  Labels :: "(string \<rightharpoonup> string) option"
  Annotations :: "(string \<rightharpoonup> string) option"

text \<open>A \<^verbatim>\<open>v1.Namespace\<close>: the controller reads its metadata only.\<close>

type_synonym Namespace = ObjectMeta

text \<open>A \<^verbatim>\<open>v1.Pod\<close>: metadata and \<^verbatim>\<open>Status.PodIPs\<close>.\<close>

record Pod = ObjectMeta +
  PodIPs :: "string list option"

text \<open>
  An \<^verbatim>\<open>AdminPolicyBasedExternalRoute\<close>: the controller reads its name, generation and
  deletion timestamp; the specification itself is passed on to the manager unread.
\<close>

record AdminPolicyBasedExternalRoute = ObjectMeta +
  Spec :: string

text \<open>\<^verbatim>\<open>(*metav1.Time).IsZero\<close>: a nil pointer is zero, as is the zero instant.\<close>

definition IsZero :: "Time option \<Rightarrow> bool" where
  "IsZero t = (case t of None \<Rightarrow> True | Some x \<Rightarrow> x = 0)"

text \<open>\<^verbatim>\<open>len\<close> of a nilable slice.\<close>

definition len :: "'a list option \<Rightarrow> nat" where
  "len xs = (case xs of None \<Rightarrow> 0 | Some ys \<Rightarrow> length ys)"

text \<open>Indexing a nilable Go map of strings: the empty string when the key is missing.\<close>

definition index :: "(string \<rightharpoonup> string) option \<Rightarrow> string \<Rightarrow> string" where
  "index m k = (case m of None \<Rightarrow> [] | Some f \<Rightarrow> (case f k of None \<Rightarrow> [] | Some v \<Rightarrow> v))"

text \<open>\<^verbatim>\<open>nettypes.NetworkStatusAnnot\<close>, the key of the multus network status annotation.\<close>

definition NetworkStatusAnnot :: string where
  "NetworkStatusAnnot = ''k8s.v1.cni.cncf.io/network-status''"

section \<open>Errors\<close>

text \<open>
  A Go \<^verbatim>\<open>error\<close> that is not nil: the API server's NotFound status, any other failure, or
  an error wrapped by \<^verbatim>\<open>fmt.Errorf("...%w", err)\<close> under the text formatted before it. A
  nilable \<^verbatim>\<open>error\<close> is an \<open>error option\<close>.
\<close>

datatype error = NotFound string | Failure string | Wrapped string error

fun isNotFound :: "error \<Rightarrow> bool" where
  "isNotFound (NotFound _) = True"
| "isNotFound (Failure _) = False"
| "isNotFound (Wrapped _ e) = isNotFound e"

text \<open>\<^verbatim>\<open>apierrors.IsNotFound\<close>: false on nil, and it looks through wrapping.\<close>

definition IsNotFound :: "error option \<Rightarrow> bool" where
  "IsNotFound err = (case err of None \<Rightarrow> False | Some e \<Rightarrow> isNotFound e)"

text \<open>A lister's \<^verbatim>\<open>Get\<close> returns the object or an error; the controller keeps the error.\<close>

definition err_of :: "error + 'a \<Rightarrow> error option" where
  "err_of r = (case r of Inl e \<Rightarrow> Some e | Inr _ \<Rightarrow> None)"

section \<open>The policy manager, a collaborator\<close>

text \<open>
  Modelled from the spec: the type \<^verbatim>\<open>namespaceInfo\<close> of the manager's cache entries is
  declared outside this file. The spec's NamespaceRouteInfo has the set of policy names
  matching the namespace, the resolved static and dynamic IP sets and the
  \<^verbatim>\<open>markForDelete\<close> flag; the controller reads and writes \<^verbatim>\<open>Policies\<close> and reads
  \<^verbatim>\<open>markForDelete\<close>. A \<^verbatim>\<open>sets.Set[string]\<close> is a set of strings (a nil set is empty).
\<close>

record namespaceInfo =
  Policies :: "string set"
  StaticGateways :: "string set"
  DynamicGateways :: "string set"
  markForDelete :: bool

text \<open>
  The controller holds cache entries by pointer (\<^verbatim>\<open>*namespaceInfo\<close>) and writes through the
  pointer, so the entries live in a store of addresses that the manager and the
  controller share. The rest of the manager's state (its indexes, its locks, what it
  has programmed into the dataplane) is the type parameter.
\<close>

type_synonym ref = nat

record 'm manager =
  namespaceInfos :: "ref \<rightharpoonup> namespaceInfo"
  internal :: 'm

text \<open>
  The methods of \<^verbatim>\<open>externalPolicyManager\<close> that the controller calls. Their bodies are not
  in this file, so they are parameters: each takes the manager's state and returns its
  result with the new state. A result \<^verbatim>\<open>(x, error)\<close> whose \<open>x\<close> the controller drops
  is the error alone.
\<close>

record 'm externalPolicyManager =
  processDeletePolicy :: "string \<Rightarrow> 'm manager \<Rightarrow> error option \<times> 'm manager"
  getRoutePolicyFromCache ::
    "string \<Rightarrow> 'm manager \<Rightarrow> (AdminPolicyBasedExternalRoute \<times> bool \<times> bool) \<times> 'm manager"
  processAddPolicy :: "AdminPolicyBasedExternalRoute \<Rightarrow> 'm manager \<Rightarrow> error option \<times> 'm manager"
  processUpdatePolicy ::
    "AdminPolicyBasedExternalRoute \<Rightarrow> AdminPolicyBasedExternalRoute \<Rightarrow> 'm manager
      \<Rightarrow> error option \<times> 'm manager"
  processDeleteNamespace :: "string \<Rightarrow> 'm manager \<Rightarrow> error option \<times> 'm manager"
  getPoliciesForNamespace :: "string \<Rightarrow> 'm manager \<Rightarrow> (string set \<times> error option) \<times> 'm manager"
  getNamespaceInfoFromCache :: "string \<Rightarrow> 'm manager \<Rightarrow> (ref \<times> bool) \<times> 'm manager"
  unlockNamespaceInfoCache :: "string \<Rightarrow> 'm manager \<Rightarrow> 'm manager"
  newNamespaceInfoInCache :: "string \<Rightarrow> 'm manager \<Rightarrow> ref \<times> 'm manager"
  processAddNamespace :: "Namespace \<Rightarrow> ref \<Rightarrow> 'm manager \<Rightarrow> error option \<times> 'm manager"
  processUpdateNamespace ::
    "string \<Rightarrow> string set \<Rightarrow> string set \<Rightarrow> ref \<Rightarrow> 'm manager \<Rightarrow> error option \<times> 'm manager"
  filterNamespacesUsingPodGateway :: "string \<times> string \<Rightarrow> 'm manager \<Rightarrow> string set \<times> 'm manager"
  processDeletePod :: "Pod \<Rightarrow> string set \<Rightarrow> 'm manager \<Rightarrow> error option \<times> 'm manager"
  processAddPod :: "Pod \<Rightarrow> 'm manager \<Rightarrow> error option \<times> 'm manager"
  processUpdatePod :: "Pod \<Rightarrow> string set \<Rightarrow> 'm manager \<Rightarrow> error option \<times> 'm manager"
  getDynamicGatewayIPsForTargetNamespace ::
    "string \<Rightarrow> 'm manager \<Rightarrow> (string set \<times> error option) \<times> 'm manager"
  getStaticGatewayIPsForTargetNamespace ::
    "string \<Rightarrow> 'm manager \<Rightarrow> (string set \<times> error option) \<times> 'm manager"

text \<open>The calls the controller makes on the manager, recorded in the order made.\<close>

datatype mgr_call =
    ProcessDeletePolicy string
  | GetRoutePolicyFromCache string
  | ProcessAddPolicy AdminPolicyBasedExternalRoute
  | ProcessUpdatePolicy AdminPolicyBasedExternalRoute AdminPolicyBasedExternalRoute
  | ProcessDeleteNamespace string
  | GetPoliciesForNamespace string
  | GetNamespaceInfoFromCache string
  | UnlockNamespaceInfoCache string
  | NewNamespaceInfoInCache string
  | ProcessAddNamespace Namespace ref
  | ProcessUpdateNamespace string "string set" "string set" ref
  | FilterNamespacesUsingPodGateway "string \<times> string"
  | ProcessDeletePod Pod "string set"
  | ProcessAddPod Pod
  | ProcessUpdatePod Pod "string set"
  | GetDynamicGatewayIPsForTargetNamespace string
  | GetStaticGatewayIPsForTargetNamespace string

section \<open>The work queues, collaborators\<close>

text \<open>
  A \<^verbatim>\<open>workqueue.RateLimitingInterface\<close> of client-go, by the methods the controller calls.
  \<^verbatim>\<open>Get\<close> hands out an item or reports that the queue is shut down. The queue's own
  state is a type parameter; the calls made on it are recorded.
\<close>

datatype 'a dequeued = Item 'a | ShutDown

datatype 'a queue_call = Get | Done 'a | NumRequeues 'a | AddRateLimited 'a | Forget 'a | Add 'a

record ('q, 'a) RateLimitingInterface =
  q_Get :: "'q \<Rightarrow> 'a dequeued \<times> 'q"
  q_Done :: "'a \<Rightarrow> 'q \<Rightarrow> 'q"
  q_NumRequeues :: "'a \<Rightarrow> 'q \<Rightarrow> int"
  q_AddRateLimited :: "'a \<Rightarrow> 'q \<Rightarrow> 'q"
  q_Forget :: "'a \<Rightarrow> 'q \<Rightarrow> 'q"
  q_Add :: "'a \<Rightarrow> 'q \<Rightarrow> 'q"

record ('q, 'a) queue =
  state :: 'q
  calls :: "'a queue_call list"

definition Get_item :: "('q, 'a) RateLimitingInterface \<Rightarrow> ('q, 'a) queue \<Rightarrow> 'a dequeued \<times> ('q, 'a) queue" where
  "Get_item Q q = (case q_Get Q (state q) of (r, s) \<Rightarrow> (r, q\<lparr>state := s, calls := calls q @ [Get]\<rparr>))"

definition Done_item :: "('q, 'a) RateLimitingInterface \<Rightarrow> 'a \<Rightarrow> ('q, 'a) queue \<Rightarrow> ('q, 'a) queue" where
  "Done_item Q x q = q\<lparr>state := q_Done Q x (state q), calls := calls q @ [Done x]\<rparr>"

definition NumRequeues_item :: "('q, 'a) RateLimitingInterface \<Rightarrow> 'a \<Rightarrow> ('q, 'a) queue \<Rightarrow> int \<times> ('q, 'a) queue" where
  "NumRequeues_item Q x q = (q_NumRequeues Q x (state q), q\<lparr>calls := calls q @ [NumRequeues x]\<rparr>)"

definition AddRateLimited_item :: "('q, 'a) RateLimitingInterface \<Rightarrow> 'a \<Rightarrow> ('q, 'a) queue \<Rightarrow> ('q, 'a) queue" where
  "AddRateLimited_item Q x q = q\<lparr>state := q_AddRateLimited Q x (state q), calls := calls q @ [AddRateLimited x]\<rparr>"

definition Forget_item :: "('q, 'a) RateLimitingInterface \<Rightarrow> 'a \<Rightarrow> ('q, 'a) queue \<Rightarrow> ('q, 'a) queue" where
  "Forget_item Q x q = q\<lparr>state := q_Forget Q x (state q), calls := calls q @ [Forget x]\<rparr>"

definition Add_item :: "('q, 'a) RateLimitingInterface \<Rightarrow> 'a \<Rightarrow> ('q, 'a) queue \<Rightarrow> ('q, 'a) queue" where
  "Add_item Q x q = q\<lparr>state := q_Add Q x (state q), calls := calls q @ [Add x]\<rparr>"

section \<open>The controller\<close>

text \<open>
  What the controller reports: \<^verbatim>\<open>klog.Warningf\<close> lines and the errors passed to
  \<^verbatim>\<open>utilruntime.HandleError\<close>. Informational lines (\<^verbatim>\<open>klog.Infof\<close>, \<^verbatim>\<open>klog.V(2).InfoS\<close>)
  are left out. A warning is kept by its text without the error printed at its end, and
  the error built from a \<^verbatim>\<open>%T\<close> format by a fixed text.
\<close>

datatype report = Warningf string | HandleError error

text \<open>
  \<^verbatim>\<open>ExternalGatewayNodeController\<close>: the listers (informer caches, read only), the three
  queues, the manager, and the records of the manager calls and of the reports. The
  stop channel, the informer factory, the wait group and the exported cache with its
  mutex (declared, never used in this file) have no part in what follows; neither have
  the constructor, \<^verbatim>\<open>Run\<close> and the event handlers of namespaces and policies.
\<close>

record ('m, 'q) ExternalGatewayNodeController =
  routeLister :: "string \<Rightarrow> error + AdminPolicyBasedExternalRoute"
  routeQueue :: "('q, AdminPolicyBasedExternalRoute) queue"
  podLister :: "string \<Rightarrow> string \<Rightarrow> error + Pod"
  podQueue :: "('q, Pod) queue"
  namespaceQueue :: "('q, Namespace) queue"
  namespaceLister :: "string \<Rightarrow> error + Namespace"
  mgr :: "'m manager"
  mgr_calls :: "mgr_call list"
  reports :: "report list"

text \<open>Calling a method of the manager: run it on the manager's state and record the call.\<close>

definition call ::
  "mgr_call \<Rightarrow> ('m manager \<Rightarrow> 'r \<times> 'm manager) \<Rightarrow> ('m, 'q) ExternalGatewayNodeController
    \<Rightarrow> 'r \<times> ('m, 'q) ExternalGatewayNodeController" where
  "call k f c = (case f (mgr c) of (r, m) \<Rightarrow> (r, c\<lparr>mgr := m, mgr_calls := mgr_calls c @ [k]\<rparr>))"

definition report :: "report \<Rightarrow> ('m, 'q) ExternalGatewayNodeController \<Rightarrow> ('m, 'q) ExternalGatewayNodeController" where
  "report r c = c\<lparr>reports := reports c @ [r]\<rparr>"

text \<open>\<^verbatim>\<open>fmt.Errorf("failed to ... %s:%w", name, err)\<close> on a non-nil error, nil passed through.\<close>

definition wrap :: "string \<Rightarrow> error option \<Rightarrow> error option" where
  "wrap msg err = (case err of None \<Rightarrow> None | Some e \<Rightarrow> Some (Wrapped msg e))"

subsection \<open>syncRoutePolicy\<close>

definition syncRoutePolicy ::
  "'m externalPolicyManager \<Rightarrow> AdminPolicyBasedExternalRoute \<Rightarrow> ('m, 'q) ExternalGatewayNodeController
    \<Rightarrow> error option \<times> ('m, 'q) ExternalGatewayNodeController" where
  "syncRoutePolicy M routePolicy c =
    (let err = err_of (routeLister c (Name routePolicy)) in
     if err \<noteq> None \<and> \<not> IsNotFound err then (err, c)
     else if IsNotFound err then
       (case call (ProcessDeletePolicy (Name routePolicy)) (processDeletePolicy M (Name routePolicy)) c of
         (err', c1) \<Rightarrow>
           (wrap (''failed to delete Admin Policy Based External Route '' @ Name routePolicy @ '':'') err', c1))
     else
       (case call (GetRoutePolicyFromCache (Name routePolicy))
               (getRoutePolicyFromCache M (Name routePolicy)) c of
         ((currentPolicy, found, markedForDeletion), c1) \<Rightarrow>
           if markedForDeletion then
             (None, report (Warningf (''Attempting to add or update route policy '' @ Name routePolicy
                @ '' when it has been marked for deletion. Skipping...'')) c1)
           else if \<not> found then
             (case call (ProcessAddPolicy routePolicy) (processAddPolicy M routePolicy) c1 of
               (err', c2) \<Rightarrow>
                 (wrap (''failed to create Admin Policy Based External Route '' @ Name routePolicy @ '':'') err', c2))
           else
             (case call (ProcessUpdatePolicy currentPolicy routePolicy)
                     (processUpdatePolicy M currentPolicy routePolicy) c1 of
               (err', c2) \<Rightarrow>
                 (wrap (''failed to update Admin Policy Based External Route '' @ Name routePolicy @ '':'') err', c2))))"

subsection \<open>syncNamespace\<close>

text \<open>
  A Go function either returns or panics. \<^verbatim>\<open>syncNamespace\<close> reads and writes through the
  pointer the manager hands it, and dereferencing a pointer that addresses no entry (nil)
  panics; the deferred calls still run.
\<close>

datatype 'a outcome = Returns 'a | Panics

text \<open>\<^verbatim>\<open>sets.Set.Equal\<close>: the two sets have the same members.\<close>

definition Equal :: "string set \<Rightarrow> string set \<Rightarrow> bool" where
  "Equal s1 s2 = (s1 = s2)"

text \<open>The assignment \<^verbatim>\<open>cacheInfo.Policies = matches\<close> through the pointer.\<close>

definition set_Policies ::
  "ref \<Rightarrow> namespaceInfo \<Rightarrow> string set \<Rightarrow> ('m, 'q) ExternalGatewayNodeController
    \<Rightarrow> ('m, 'q) ExternalGatewayNodeController" where
  "set_Policies r info ps c =
    c\<lparr>mgr := (mgr c)\<lparr>namespaceInfos := (namespaceInfos (mgr c))(r \<mapsto> info\<lparr>Policies := ps\<rparr>)\<rparr>\<rparr>"

text \<open>
  The part of \<^verbatim>\<open>syncNamespace\<close> after \<^verbatim>\<open>defer c.mgr.unlockNamespaceInfoCache(namespace.Name)\<close>:
  the tombstone check, the ADD case and the UPDATE case, in the order of the source.
\<close>

definition syncNamespace_deferred ::
  "'m externalPolicyManager \<Rightarrow> Namespace \<Rightarrow> string set \<Rightarrow> ref \<Rightarrow> bool
    \<Rightarrow> ('m, 'q) ExternalGatewayNodeController
    \<Rightarrow> error option outcome \<times> ('m, 'q) ExternalGatewayNodeController" where
  "syncNamespace_deferred M namespace matches cacheInfo found c =
    (case (if found then map_option markForDelete (namespaceInfos (mgr c) cacheInfo) else Some False) of
      None \<Rightarrow> (Panics, c)
    | Some True \<Rightarrow>
        (Returns (Some (Failure (''cannot add namespace '' @ Name namespace
            @ '' because it is currently being deleted''))), c)
    | Some False \<Rightarrow>
        if \<not> found then
          (case call (NewNamespaceInfoInCache (Name namespace))
                  (newNamespaceInfoInCache M (Name namespace)) c of
            (cacheInfo', c1) \<Rightarrow>
              (case namespaceInfos (mgr c1) cacheInfo' of
                None \<Rightarrow> (Panics, c1)
              | Some info \<Rightarrow>
                  (case call (ProcessAddNamespace namespace cacheInfo')
                          (processAddNamespace M namespace cacheInfo')
                          (set_Policies cacheInfo' info matches c1) of
                    (err, c2) \<Rightarrow> (Returns err, c2))))
        else
          (case namespaceInfos (mgr c) cacheInfo of
            None \<Rightarrow> (Panics, c)
          | Some info \<Rightarrow>
              if \<not> Equal (Policies info) matches then
                (case call (ProcessUpdateNamespace (Name namespace) (Policies info) matches cacheInfo)
                        (processUpdateNamespace M (Name namespace) (Policies info) matches cacheInfo) c of
                  (err, c1) \<Rightarrow> (Returns err, c1))
              else (Returns None, c)))"

definition syncNamespace ::
  "'m externalPolicyManager \<Rightarrow> Namespace \<Rightarrow> ('m, 'q) ExternalGatewayNodeController
    \<Rightarrow> error option outcome \<times> ('m, 'q) ExternalGatewayNodeController" where
  "syncNamespace M namespace c =
    (let err = err_of (namespaceLister c (Name namespace)) in
     if err \<noteq> None \<and> \<not> IsNotFound err then (Returns err, c)
     else if IsNotFound err \<or> \<not> IsZero (DeletionTimestamp namespace) then
       (case call (ProcessDeleteNamespace (Name namespace))
               (processDeleteNamespace M (Name namespace)) c of
         (err', c1) \<Rightarrow> (Returns err', c1))
     else
       (case call (GetPoliciesForNamespace (Name namespace))
               (getPoliciesForNamespace M (Name namespace)) c of
         ((matches, err'), c1) \<Rightarrow>
           if err' \<noteq> None then (Returns err', c1)
           else
             (case call (GetNamespaceInfoFromCache (Name namespace))
                     (getNamespaceInfoFromCache M (Name namespace)) c1 of
               ((cacheInfo, found), c2) \<Rightarrow>
                 if \<not> found \<and> matches = {} then (Returns None, c2)
                 else
                   (case syncNamespace_deferred M namespace matches cacheInfo found c2 of
                     (r, c3) \<Rightarrow>
                       (r, snd (call (UnlockNamespaceInfoCache (Name namespace))
                                  (\<lambda>m. ((), unlockNamespaceInfoCache M (Name namespace) m)) c3))))))"

subsection \<open>syncPod\<close>

definition syncPod ::
  "'m externalPolicyManager \<Rightarrow> Pod \<Rightarrow> ('m, 'q) ExternalGatewayNodeController
    \<Rightarrow> error option \<times> ('m, 'q) ExternalGatewayNodeController" where
  "syncPod M pod c =
    (let err = err_of (podLister c (Namespace pod) (Name pod)) in
     if err \<noteq> None \<and> \<not> IsNotFound err then (err, c)
     else
       (case call (FilterNamespacesUsingPodGateway (Namespace pod, Name pod))
               (filterNamespacesUsingPodGateway M (Namespace pod, Name pod)) c of
         (namespaces, c1) \<Rightarrow>
           if IsNotFound err \<or> \<not> IsZero (DeletionTimestamp pod) then
             (if namespaces = {} then (None, c1)
              else call (ProcessDeletePod pod namespaces) (processDeletePod M pod namespaces) c1)
           else if namespaces = {} then call (ProcessAddPod pod) (processAddPod M pod) c1
           else call (ProcessUpdatePod pod namespaces) (processUpdatePod M pod namespaces) c1))"

subsection \<open>GetAdminPolicyBasedExternalRouteIPsForTargetNamespace\<close>

text \<open>
  The result is the pair \<^verbatim>\<open>(sets.Set[string], error)\<close>; the set returned beside an error is
  nil (\<open>None\<close>). \<^verbatim>\<open>Union\<close> builds a fresh set from the members of both, so it is never nil.
\<close>

definition GetAdminPolicyBasedExternalRouteIPsForTargetNamespace ::
  "'m externalPolicyManager \<Rightarrow> string \<Rightarrow> ('m, 'q) ExternalGatewayNodeController
    \<Rightarrow> (string set option \<times> error option) \<times> ('m, 'q) ExternalGatewayNodeController" where
  "GetAdminPolicyBasedExternalRouteIPsForTargetNamespace M namespaceName c =
    (case call (GetDynamicGatewayIPsForTargetNamespace namespaceName)
            (getDynamicGatewayIPsForTargetNamespace M namespaceName) c of
      ((gwIPs, err), c1) \<Rightarrow>
        if err \<noteq> None then ((None, err), c1)
        else
          (case call (GetStaticGatewayIPsForTargetNamespace namespaceName)
                  (getStaticGatewayIPsForTargetNamespace M namespaceName) c1 of
            ((tmpIPs, err'), c2) \<Rightarrow>
              if err' \<noteq> None then ((None, err'), c2)
              else ((Some (gwIPs \<union> tmpIPs), None), c2)))"

subsection \<open>The workers\<close>

text \<open>
  One item of a queue: \<^verbatim>\<open>Get\<close>, the sync, then the retry policy; \<^verbatim>\<open>defer queue.Done(obj)\<close>
  runs on every way out once an item was handed over. \<^verbatim>\<open>maxRetries\<close> is a constant of the
  package declared outside this file, hence a parameter. The result tells the worker's
  loop whether to go on.
\<close>

definition processNextPolicyWorkItem ::
  "'m externalPolicyManager \<Rightarrow> ('q, AdminPolicyBasedExternalRoute) RateLimitingInterface \<Rightarrow> int
    \<Rightarrow> ('m, 'q) ExternalGatewayNodeController \<Rightarrow> bool \<times> ('m, 'q) ExternalGatewayNodeController" where
  "processNextPolicyWorkItem M Q maxRetries c =
    (case Get_item Q (routeQueue c) of
      (ShutDown, q) \<Rightarrow> (False, c\<lparr>routeQueue := q\<rparr>)
    | (Item item, q) \<Rightarrow>
        (case syncRoutePolicy M item (c\<lparr>routeQueue := q\<rparr>) of
          (None, c1) \<Rightarrow>
            (True, c1\<lparr>routeQueue := Done_item Q item (Forget_item Q item (routeQueue c1))\<rparr>)
        | (Some e, c1) \<Rightarrow>
            (case NumRequeues_item Q item (routeQueue c1) of
              (n, q1) \<Rightarrow>
                if n < maxRetries then
                  (True, c1\<lparr>routeQueue := Done_item Q item (AddRateLimited_item Q item q1)\<rparr>)
                else
                  (True, (report (HandleError e)
                           (report (Warningf (''Dropping policy '' @ Name item @ '' out of the queue'')) c1))
                         \<lparr>routeQueue := Done_item Q item (Forget_item Q item q1)\<rparr>))))"

definition processNextNamespaceWorkItem ::
  "'m externalPolicyManager \<Rightarrow> ('q, Namespace) RateLimitingInterface \<Rightarrow> int
    \<Rightarrow> ('m, 'q) ExternalGatewayNodeController
    \<Rightarrow> bool outcome \<times> ('m, 'q) ExternalGatewayNodeController" where
  "processNextNamespaceWorkItem M Q maxRetries c =
    (case Get_item Q (namespaceQueue c) of
      (ShutDown, q) \<Rightarrow> (Returns False, c\<lparr>namespaceQueue := q\<rparr>)
    | (Item obj, q) \<Rightarrow>
        (case syncNamespace M obj (c\<lparr>namespaceQueue := q\<rparr>) of
          (Panics, c1) \<Rightarrow> (Panics, c1\<lparr>namespaceQueue := Done_item Q obj (namespaceQueue c1)\<rparr>)
        | (Returns None, c1) \<Rightarrow>
            (Returns True, c1\<lparr>namespaceQueue := Done_item Q obj (Forget_item Q obj (namespaceQueue c1))\<rparr>)
        | (Returns (Some e), c1) \<Rightarrow>
            (case NumRequeues_item Q obj (namespaceQueue c1) of
              (n, q1) \<Rightarrow>
                if n < maxRetries then
                  (Returns True, c1\<lparr>namespaceQueue := Done_item Q obj (AddRateLimited_item Q obj q1)\<rparr>)
                else
                  (Returns True, (report (HandleError e)
                           (report (Warningf (''Dropping namespace '' @ Name obj @ '' out of the queue'')) c1))
                         \<lparr>namespaceQueue := Done_item Q obj (Forget_item Q obj q1)\<rparr>))))"

definition processNextPodWorkItem ::
  "'m externalPolicyManager \<Rightarrow> ('q, Pod) RateLimitingInterface \<Rightarrow> int
    \<Rightarrow> ('m, 'q) ExternalGatewayNodeController \<Rightarrow> bool \<times> ('m, 'q) ExternalGatewayNodeController" where
  "processNextPodWorkItem M Q maxRetries c =
    (case Get_item Q (podQueue c) of
      (ShutDown, q) \<Rightarrow> (False, c\<lparr>podQueue := q\<rparr>)
    | (Item p, q) \<Rightarrow>
        (case syncPod M p (c\<lparr>podQueue := q\<rparr>) of
          (None, c1) \<Rightarrow>
            (True, c1\<lparr>podQueue := Done_item Q p (Forget_item Q p (podQueue c1))\<rparr>)
        | (Some e, c1) \<Rightarrow>
            (case NumRequeues_item Q p (podQueue c1) of
              (n, q1) \<Rightarrow>
                if n < maxRetries then
                  (True, c1\<lparr>podQueue := Done_item Q p (AddRateLimited_item Q p q1)\<rparr>)
                else
                  (True, (report (HandleError e)
                           (report (Warningf (''Dropping pod '' @ Namespace p @ ''/'' @ Name p
                              @ '' out of the queue'')) c1))
                         \<lparr>podQueue := Done_item Q p (Forget_item Q p q1)\<rparr>))))"

subsection \<open>The pod event handlers\<close>

text \<open>
  An event handler receives an \<^verbatim>\<open>interface{}\<close>: a pointer to an object of some kind (nil
  or not), the \<^verbatim>\<open>cache.DeletedFinalStateUnknown\<close> wrapper of a deleted object whose last
  state is unsure (its key and the object), or something else.
\<close>

datatype obj =
    PodPtr "Pod option"
  | NamespacePtr "Namespace option"
  | PolicyPtr "AdminPolicyBasedExternalRoute option"
  | DeletedFinalStateUnknown string obj
  | OtherObj

definition onPodAdd ::
  "('q, Pod) RateLimitingInterface \<Rightarrow> obj \<Rightarrow> ('m, 'q) ExternalGatewayNodeController
    \<Rightarrow> ('m, 'q) ExternalGatewayNodeController" where
  "onPodAdd Q ob c =
    (case ob of
      PodPtr None \<Rightarrow> report (HandleError (Failure ''invalid Pod provided to onPodAdd()'')) c
    | PodPtr (Some pod) \<Rightarrow>
        if len (PodIPs pod) = 0 \<and> length (index (Annotations pod) NetworkStatusAnnot) = 0 then c
        else c\<lparr>podQueue := Add_item Q pod (podQueue c)\<rparr>
    | _ \<Rightarrow> report (HandleError (Failure ''expecting *v1.Pod but received another type'')) c)"

text \<open>\<^verbatim>\<open>reflect.DeepEqual\<close> on the labels, the pod IPs and the annotation's text is equality.\<close>

definition onPodUpdate ::
  "('q, Pod) RateLimitingInterface \<Rightarrow> obj \<Rightarrow> obj \<Rightarrow> ('m, 'q) ExternalGatewayNodeController
    \<Rightarrow> ('m, 'q) ExternalGatewayNodeController" where
  "onPodUpdate Q oldObj newObj c =
    (case (oldObj, newObj) of
      (PodPtr (Some old), PodPtr (Some new)) \<Rightarrow>
        if Labels old = Labels new \<and> PodIPs old = PodIPs new
            \<and> index (Annotations old) NetworkStatusAnnot = index (Annotations new) NetworkStatusAnnot
        then c
        else c\<lparr>podQueue := Add_item Q new (podQueue c)\<rparr>
    | (PodPtr _, PodPtr _) \<Rightarrow> report (HandleError (Failure ''invalid Pod provided to onPodUpdate()'')) c
    | _ \<Rightarrow> report (HandleError (Failure ''expecting *v1.Pod but received another type'')) c)"

definition onPodDelete ::
  "('q, Pod) RateLimitingInterface \<Rightarrow> obj \<Rightarrow> ('m, 'q) ExternalGatewayNodeController
    \<Rightarrow> ('m, 'q) ExternalGatewayNodeController" where
  "onPodDelete Q ob c =
    (case ob of
      PodPtr None \<Rightarrow> c
    | PodPtr (Some pod) \<Rightarrow> c\<lparr>podQueue := Add_item Q pod (podQueue c)\<rparr>
    | DeletedFinalStateUnknown key (PodPtr None) \<Rightarrow> c
    | DeletedFinalStateUnknown key (PodPtr (Some pod)) \<Rightarrow> c\<lparr>podQueue := Add_item Q pod (podQueue c)\<rparr>
    | DeletedFinalStateUnknown key _ \<Rightarrow>
        report (HandleError (Failure ''tombstone contained object that is not a Pod'')) c
    | _ \<Rightarrow> report (HandleError (Failure ''could not get object from tombstone'')) c)"

section \<open>What a call added to a queue\<close>

text \<open>
  The calls made on a queue between two of its states: the record only grows, so they
  are what stands after the earlier record.
\<close>

definition new_calls :: "('q, 'a) queue \<Rightarrow> ('q, 'a) queue \<Rightarrow> 'a queue_call list" where
  "new_calls q q' = drop (length (calls q)) (calls q')"

section \<open>The manager's side of the namespace invariant\<close>




section \<open>Example collaborators\<close>

text \<open>
  Concrete objects and collaborators, on which the theorems below are run: a policy, a
  namespace and a pod of a given name.
\<close>

definition examplePolicy :: "string \<Rightarrow> AdminPolicyBasedExternalRoute" where
  "examplePolicy n = \<lparr>Name = n, Namespace = [], ResourceVersion = ''1'', Generation = 1,
     DeletionTimestamp = None, Labels = None, Annotations = None, Spec = ''static 10.0.0.5''\<rparr>"

definition exampleNamespace :: "string \<Rightarrow> Namespace" where
  "exampleNamespace n = \<lparr>Name = n, Namespace = [], ResourceVersion = ''1'', Generation = 1,
     DeletionTimestamp = None, Labels = None, Annotations = None\<rparr>"

definition examplePod :: "string \<Rightarrow> string \<Rightarrow> Pod" where
  "examplePod ns n = \<lparr>Name = n, Namespace = ns, ResourceVersion = ''1'', Generation = 1,
     DeletionTimestamp = None, Labels = None, Annotations = None, PodIPs = Some [''192.168.1.9'']\<rparr>"

text \<open>
  A small manager without state of its own: one cache entry, at address 1, serves
  whichever namespace is asked for. The policy \<open>cached\<close> is in its policy cache, the policy
  \<open>tombstoned\<close> is there and marked for deletion, adding the policy \<open>failing\<close> fails; the
  policy \<open>p1\<close> matches the namespace \<open>ns1\<close>; the match set cannot be computed
  for the namespace \<open>ns3\<close>; the pod \<open>gw1\<close> is a gateway of \<open>ns1\<close>; the dynamic gateway
  lookup fails for the namespace \<open>unknown\<close> and the static one for \<open>ns4\<close>.
\<close>

definition exampleManager :: "unit externalPolicyManager" where
  "exampleManager = \<lparr>
     processDeletePolicy = (\<lambda>n m. (None, m)),
     getRoutePolicyFromCache =
       (\<lambda>n m. ((examplePolicy n, n = ''cached'' \<or> n = ''tombstoned'', n = ''tombstoned''), m)),
     processAddPolicy = (\<lambda>p m. (if Name p = ''failing'' then Some (Failure ''apply failed'') else None, m)),
     processUpdatePolicy = (\<lambda>old new m. (None, m)),
     processDeleteNamespace = (\<lambda>n m. (None, m)),
     getPoliciesForNamespace =
       (\<lambda>n m. ((if n = ''ns1'' then {''p1''} else {},
                 if n = ''ns3'' then Some (Failure ''invalid selector'') else None), m)),
     getNamespaceInfoFromCache = (\<lambda>n m. ((1, namespaceInfos m 1 \<noteq> None), m)),
     unlockNamespaceInfoCache = (\<lambda>n m. m),
     newNamespaceInfoInCache = (\<lambda>n m. (1, m\<lparr>namespaceInfos := (namespaceInfos m)(1 \<mapsto>
        \<lparr>Policies = {}, StaticGateways = {}, DynamicGateways = {}, markForDelete = False\<rparr>)\<rparr>)),
     processAddNamespace = (\<lambda>ns r m. (None, m)),
     processUpdateNamespace = (\<lambda>n cur new r m. (None, m\<lparr>namespaceInfos :=
        (case namespaceInfos m r of None \<Rightarrow> namespaceInfos m
         | Some info \<Rightarrow> (namespaceInfos m)(r \<mapsto> info\<lparr>Policies := new\<rparr>))\<rparr>)),
     filterNamespacesUsingPodGateway = (\<lambda>p m. (if snd p = ''gw1'' then {''ns1''} else {}, m)),
     processDeletePod = (\<lambda>p nss m. (None, m)),
     processAddPod = (\<lambda>p m. (None, m)),
     processUpdatePod = (\<lambda>p nss m. (None, m)),
     getDynamicGatewayIPsForTargetNamespace =
       (\<lambda>n m. ((if n = ''ns1'' then {''192.168.1.9''} else {},
                 if n = ''unknown'' then Some (Failure ''lookup failed'') else None), m)),
     getStaticGatewayIPsForTargetNamespace =
       (\<lambda>n m. ((if n = ''ns4'' then {} else {''10.0.0.5''},
                 if n = ''ns4'' then Some (Failure ''static lookup failed'') else None), m))\<rparr>"

text \<open>
  A queue that hands out the item \<open>x\<close> and counts the rate-limited re-adds since the last
  \<^verbatim>\<open>Forget\<close>.
\<close>

definition exampleQueue :: "'a \<Rightarrow> (nat, 'a) RateLimitingInterface" where
  "exampleQueue x = \<lparr>
     q_Get = (\<lambda>k. (Item x, k)),
     q_Done = (\<lambda>y k. k),
     q_NumRequeues = (\<lambda>y k. int k),
     q_AddRateLimited = (\<lambda>y k. Suc k),
     q_Forget = (\<lambda>y k. 0),
     q_Add = (\<lambda>y k. k)\<rparr>"

text \<open>
  A controller with an empty cache and empty records. Its listers know every name but
  \<open>deleted\<close> (NotFound) and \<open>unreachable\<close> (the lookup fails).
\<close>

definition exampleController :: "(unit, nat) ExternalGatewayNodeController" where
  "exampleController = \<lparr>
     routeLister = (\<lambda>n. if n = ''deleted'' then Inl (NotFound n)
        else if n = ''unreachable'' then Inl (Failure ''lister failed'') else Inr (examplePolicy n)),
     routeQueue = \<lparr>state = 0, calls = []\<rparr>,
     podLister = (\<lambda>ns n. if n = ''deleted'' then Inl (NotFound n)
        else if n = ''unreachable'' then Inl (Failure ''lister failed'') else Inr (examplePod ns n)),
     podQueue = \<lparr>state = 0, calls = []\<rparr>,
     namespaceQueue = \<lparr>state = 0, calls = []\<rparr>,
     namespaceLister = (\<lambda>n. if n = ''deleted'' then Inl (NotFound n)
        else if n = ''unreachable'' then Inl (Failure ''lister failed'') else Inr (exampleNamespace n)),
     mgr = \<lparr>namespaceInfos = Map.empty, internal = ()\<rparr>,
     mgr_calls = [],
     reports = []\<rparr>"

text \<open>
  The same controller once the one cache entry exists, holds the policy \<open>p1\<close> and is marked
  for deletion.
\<close>

definition tombstonedController :: "(unit, nat) ExternalGatewayNodeController" where
  "tombstonedController = exampleController\<lparr>mgr :=
     \<lparr>namespaceInfos = [1 \<mapsto> \<lparr>Policies = {''p1''}, StaticGateways = {''10.0.0.5''},
        DynamicGateways = {}, markForDelete = True\<rparr>], internal = ()\<rparr>\<rparr>"

text \<open>
  The tombstoned controller when its namespace item has been re-added fifteen times.
\<close>

definition exhaustedController :: "(unit, nat) ExternalGatewayNodeController" where
  "exhaustedController = tombstonedController\<lparr>namespaceQueue := \<lparr>state = 15, calls = []\<rparr>\<rparr>"


section \<open>What the syncs leave untouched\<close>

text \<open>
  A sync calls the manager and reports; it leaves the queues and the listers as they are.
\<close>

lemma call_beta:
  "call k f c = (fst (f (mgr c)), c\<lparr>mgr := snd (f (mgr c)), mgr_calls := mgr_calls c @ [k]\<rparr>)"
  by (simp add: call_def split_beta)

lemma syncRoutePolicy_keeps_routeQueue:
  "routeQueue (snd (syncRoutePolicy M p c)) = routeQueue c"
  by (simp add: syncRoutePolicy_def call_beta report_def Let_def split_beta)

lemma syncPod_keeps_podQueue:
  "podQueue (snd (syncPod M p c)) = podQueue c"
  by (simp add: syncPod_def call_beta Let_def split_beta)

lemma syncNamespace_deferred_keeps_namespaceQueue:
  "namespaceQueue (snd (syncNamespace_deferred M ns ms r f c)) = namespaceQueue c"
  by (simp add: syncNamespace_deferred_def call_beta set_Policies_def split_beta split: option.splits bool.splits)

lemma syncNamespace_keeps_namespaceQueue:
  "namespaceQueue (snd (syncNamespace M ns c)) = namespaceQueue c"
  by (simp add: syncNamespace_def call_beta Let_def split_beta syncNamespace_deferred_keeps_namespaceQueue)


lemma Get_item_calls:
  "Get_item Q q = (r, q') \<Longrightarrow> calls q' = calls q @ [Get]"
  by (auto simp add: Get_item_def split_beta)

section \<open>The calls a worker makes on its queue\<close>

text \<open>
  What a worker does with one item, by the outcome of the sync and the number of requeues
  read from the queue: the calls added to the queue's record, and the reports added.
\<close>

lemma policy_worker_calls:
  assumes got: "Get_item Q (routeQueue c) = (Item item, q)"
  shows "new_calls (routeQueue c) (routeQueue (snd (processNextPolicyWorkItem M Q maxRetries c))) =
    (case fst (syncRoutePolicy M item (c\<lparr>routeQueue := q\<rparr>)) of
      None \<Rightarrow> [Get, Forget item, Done item]
    | Some e \<Rightarrow>
        if q_NumRequeues Q item (state q) < maxRetries then [Get, NumRequeues item, AddRateLimited item, Done item]
        else [Get, NumRequeues item, Forget item, Done item])"
proof -
  obtain out c1 where sync: "syncRoutePolicy M item (c\<lparr>routeQueue := q\<rparr>) = (out, c1)"
    by (metis surj_pair)
  have q1: "routeQueue c1 = q"
    using syncRoutePolicy_keeps_routeQueue [of M item "c\<lparr>routeQueue := q\<rparr>"] sync by simp
  have cs: "calls q = calls (routeQueue c) @ [Get]"
    using got by (rule Get_item_calls)
  show ?thesis
    using got sync q1 cs
    by (simp add: processNextPolicyWorkItem_def new_calls_def NumRequeues_item_def Forget_item_def
        Done_item_def AddRateLimited_item_def report_def split: option.splits)
qed

lemma pod_worker_calls:
  assumes got: "Get_item Q (podQueue c) = (Item item, q)"
  shows "new_calls (podQueue c) (podQueue (snd (processNextPodWorkItem M Q maxRetries c))) =
    (case fst (syncPod M item (c\<lparr>podQueue := q\<rparr>)) of
      None \<Rightarrow> [Get, Forget item, Done item]
    | Some e \<Rightarrow>
        if q_NumRequeues Q item (state q) < maxRetries then [Get, NumRequeues item, AddRateLimited item, Done item]
        else [Get, NumRequeues item, Forget item, Done item])"
proof -
  obtain out c1 where sync: "syncPod M item (c\<lparr>podQueue := q\<rparr>) = (out, c1)"
    by (metis surj_pair)
  have q1: "podQueue c1 = q"
    using syncPod_keeps_podQueue [of M item "c\<lparr>podQueue := q\<rparr>"] sync by simp
  have cs: "calls q = calls (podQueue c) @ [Get]"
    using got by (rule Get_item_calls)
  show ?thesis
    using got sync q1 cs
    by (simp add: processNextPodWorkItem_def new_calls_def NumRequeues_item_def Forget_item_def
        Done_item_def AddRateLimited_item_def report_def split: option.splits)
qed

lemma namespace_worker_calls:
  assumes got: "Get_item Q (namespaceQueue c) = (Item item, q)"
  shows "new_calls (namespaceQueue c) (namespaceQueue (snd (processNextNamespaceWorkItem M Q maxRetries c))) =
    (case fst (syncNamespace M item (c\<lparr>namespaceQueue := q\<rparr>)) of
      Panics \<Rightarrow> [Get, Done item]
    | Returns None \<Rightarrow> [Get, Forget item, Done item]
    | Returns (Some e) \<Rightarrow>
        if q_NumRequeues Q item (state q) < maxRetries then [Get, NumRequeues item, AddRateLimited item, Done item]
        else [Get, NumRequeues item, Forget item, Done item])"
proof -
  obtain out c1 where sync: "syncNamespace M item (c\<lparr>namespaceQueue := q\<rparr>) = (out, c1)"
    by (metis surj_pair)
  have q1: "namespaceQueue c1 = q"
    using syncNamespace_keeps_namespaceQueue [of M item "c\<lparr>namespaceQueue := q\<rparr>"] sync by simp
  have cs: "calls q = calls (namespaceQueue c) @ [Get]"
    using got by (rule Get_item_calls)
  show ?thesis
    using got sync q1 cs
    by (simp add: processNextNamespaceWorkItem_def new_calls_def NumRequeues_item_def Forget_item_def
        Done_item_def AddRateLimited_item_def report_def split: option.splits outcome.splits)
qed




section \<open>A namespace whose cache entry agrees with its match set\<close>







section \<open>The claims\<close>

subsection \<open>C1: a policy marked for deletion\<close>

text \<open>
  C1 says that once a cache entry is marked for deletion every policy or pod sync
  targeting it fails with the retryable InProgress error. \<^verbatim>\<open>syncRoutePolicy\<close> does not: the
  policy \<open>tombstoned\<close> is listed, the manager's cache reports it found and marked for
  deletion, and the sync returns nil (on nil its worker forgets the item, see C4).
\<close>

theorem syncRoutePolicy_marked_policy_returns_nil:
  "err_of (routeLister exampleController ''tombstoned'') = None
   \<and> getRoutePolicyFromCache exampleManager ''tombstoned'' (mgr exampleController)
       = ((examplePolicy ''tombstoned'', True, True), mgr exampleController)
   \<and> fst (syncRoutePolicy exampleManager (examplePolicy ''tombstoned'') exampleController) = None"
  by (simp add: syncRoutePolicy_def call_def report_def IsNotFound_def exampleManager_def
      exampleController_def examplePolicy_def err_of_def)

text \<open>
  C1 as amended: when the policy is listed and \<^verbatim>\<open>getRoutePolicyFromCache\<close> reports it
  marked for deletion, \<^verbatim>\<open>syncRoutePolicy\<close> returns nil after a warning. Its only call on
  the manager is that lookup: it calls neither \<^verbatim>\<open>processAddPolicy\<close> nor
  \<^verbatim>\<open>processUpdatePolicy\<close>, and the manager's state is the one the lookup left.
  (\<^verbatim>\<open>syncPod\<close> has no check of the mark; what a pod sync does to such an entry is decided
  in the manager's pod operations.)
\<close>

theorem syncRoutePolicy_skips_marked_policy:
  assumes "err_of (routeLister c (Name routePolicy)) = None"
    and "getRoutePolicyFromCache M (Name routePolicy) (mgr c) = ((currentPolicy, found, True), m1)"
  shows "syncRoutePolicy M routePolicy c =
    (None, c\<lparr>mgr := m1, mgr_calls := mgr_calls c @ [GetRoutePolicyFromCache (Name routePolicy)],
       reports := reports c @ [Warningf (''Attempting to add or update route policy '' @ Name routePolicy
                @ '' when it has been marked for deletion. Skipping...'')]\<rparr>)"
  using assms
  by (simp add: syncRoutePolicy_def call_def report_def IsNotFound_def)

text \<open>
  The policy \<open>tombstoned\<close> on the example controller.
\<close>

theorem syncRoutePolicy_skips_marked_policy_witness:
  "syncRoutePolicy exampleManager (examplePolicy ''tombstoned'') exampleController =
    (None, exampleController\<lparr>mgr_calls := [GetRoutePolicyFromCache ''tombstoned''],
       reports := [Warningf ''Attempting to add or update route policy tombstoned when it has been marked for deletion. Skipping...'']\<rparr>)"
  using syncRoutePolicy_skips_marked_policy [of exampleController "examplePolicy ''tombstoned''" exampleManager "examplePolicy ''tombstoned''" True
     "mgr exampleController"]
  by (simp add: exampleManager_def exampleController_def examplePolicy_def err_of_def)

subsection \<open>C2: a namespace whose cache entry is marked for deletion\<close>

text \<open>
  C2: when the namespace is listed with a zero deletion timestamp and the cache holds an
  entry for it that is marked for deletion, \<^verbatim>\<open>syncNamespace\<close> returns an error and changes
  nothing itself: it calls the two lookups and the deferred unlock, no operation that
  creates or changes an entry, and it does not write the entry. The error is "cannot add
  namespace ... because it is currently being deleted"; only when
  \<^verbatim>\<open>getPoliciesForNamespace\<close>, which runs before the cache is looked up, fails, is its error
  the one returned, and then the cache is not looked up at all. Every error makes the
  worker retry (see C4).
\<close>

theorem syncNamespace_marked_for_delete_fails:
  assumes "err_of (namespaceLister c (Name namespace)) = None"
    and "IsZero (DeletionTimestamp namespace)"
    and "getPoliciesForNamespace M (Name namespace) (mgr c) = ((matches, err), m1)"
    and "getNamespaceInfoFromCache M (Name namespace) m1 = ((cacheInfo, True), m2)"
    and "namespaceInfos m2 cacheInfo = Some info"
    and "markForDelete info"
  shows "(\<exists>e. fst (syncNamespace M namespace c) = Returns (Some e))
    \<and> (err = None \<longrightarrow> syncNamespace M namespace c =
      (Returns (Some (Failure (''cannot add namespace '' @ Name namespace
          @ '' because it is currently being deleted''))),
       c\<lparr>mgr := unlockNamespaceInfoCache M (Name namespace) m2,
         mgr_calls := mgr_calls c @ [GetPoliciesForNamespace (Name namespace),
           GetNamespaceInfoFromCache (Name namespace), UnlockNamespaceInfoCache (Name namespace)]\<rparr>))
    \<and> (err \<noteq> None \<longrightarrow> syncNamespace M namespace c =
      (Returns err, c\<lparr>mgr := m1, mgr_calls := mgr_calls c @ [GetPoliciesForNamespace (Name namespace)]\<rparr>))"
  using assms
  by (auto simp add: syncNamespace_def syncNamespace_deferred_def call_def IsNotFound_def)

text \<open>
  The namespaces \<open>ns1\<close> and \<open>ns3\<close> on the tombstoned controller.
\<close>

theorem syncNamespace_marked_for_delete_fails_witness:
  "syncNamespace exampleManager (exampleNamespace ''ns1'') tombstonedController =
    (Returns (Some (Failure ''cannot add namespace ns1 because it is currently being deleted'')),
     tombstonedController\<lparr>mgr_calls := [GetPoliciesForNamespace ''ns1'',
           GetNamespaceInfoFromCache ''ns1'', UnlockNamespaceInfoCache ''ns1'']\<rparr>)
   \<and> syncNamespace exampleManager (exampleNamespace ''ns3'') tombstonedController =
    (Returns (Some (Failure ''invalid selector'')),
     tombstonedController\<lparr>mgr_calls := [GetPoliciesForNamespace ''ns3'']\<rparr>)"
  using syncNamespace_marked_for_delete_fails [of tombstonedController "exampleNamespace ''ns1''" exampleManager "{''p1''}" None
      "mgr tombstonedController" 1 "mgr tombstonedController"
      "\<lparr>Policies = {''p1''}, StaticGateways = {''10.0.0.5''}, DynamicGateways = {}, markForDelete = True\<rparr>"]
    syncNamespace_marked_for_delete_fails [of tombstonedController "exampleNamespace ''ns3''" exampleManager "{}" "Some (Failure ''invalid selector'')"
      "mgr tombstonedController" 1 "mgr tombstonedController"
      "\<lparr>Policies = {''p1''}, StaticGateways = {''10.0.0.5''}, DynamicGateways = {}, markForDelete = True\<rparr>"]
  by (simp add: exampleManager_def exampleController_def tombstonedController_def exampleNamespace_def
      err_of_def IsZero_def)

subsection \<open>C3: the three ways of syncRoutePolicy\<close>



subsection \<open>C4: retry or drop\<close>



subsection \<open>C5: syncNamespace run twice\<close>




subsection \<open>C6: the ways of syncPod\<close>

text \<open>
  C6 says that a pod whose deletion timestamp is set is either a no-op returning nil or
  goes the Delete path. When the pod lister fails with an error other than NotFound,
  \<^verbatim>\<open>syncPod\<close> returns that error first, whatever the timestamp, and calls nothing.
\<close>

theorem syncPod_lister_failure_returns_error:
  "\<not> IsZero (DeletionTimestamp ((examplePod ''ns1'' ''unreachable'')\<lparr>DeletionTimestamp := Some 5\<rparr>))
   \<and> err_of (podLister exampleController ''ns1'' ''unreachable'') = Some (Failure ''lister failed'')
   \<and> syncPod exampleManager ((examplePod ''ns1'' ''unreachable'')\<lparr>DeletionTimestamp := Some 5\<rparr>) exampleController
      = (Some (Failure ''lister failed''), exampleController)"
  by (simp add: syncPod_def IsNotFound_def IsZero_def exampleController_def examplePod_def err_of_def)

text \<open>
  C6 as amended: \<^verbatim>\<open>syncPod\<close> returns the lister's error, and calls nothing, when the pod
  lister fails with an error other than NotFound. Otherwise it asks the manager for the
  namespaces the pod is a gateway of, and: when the pod is not found in the listing, or is
  listed with its deletion timestamp set, it returns nil if that set is empty and calls
  \<^verbatim>\<open>processDeletePod\<close> if not; when the pod is listed with a zero deletion timestamp, it
  calls \<^verbatim>\<open>processAddPod\<close> if the set is empty and \<^verbatim>\<open>processUpdatePod\<close> if not.
\<close>

theorem syncPod_dispatch:
  assumes "filterNamespacesUsingPodGateway M (Namespace pod, Name pod) (mgr c) = (namespaces, m1)"
  shows "(err_of (podLister c (Namespace pod) (Name pod)) \<noteq> None
        \<and> \<not> IsNotFound (err_of (podLister c (Namespace pod) (Name pod))) \<longrightarrow>
      syncPod M pod c = (err_of (podLister c (Namespace pod) (Name pod)), c))
   \<and> ((IsNotFound (err_of (podLister c (Namespace pod) (Name pod)))
         \<or> err_of (podLister c (Namespace pod) (Name pod)) = None \<and> \<not> IsZero (DeletionTimestamp pod))
        \<and> namespaces = {} \<longrightarrow>
      syncPod M pod c =
        (None, c\<lparr>mgr := m1,
           mgr_calls := mgr_calls c @ [FilterNamespacesUsingPodGateway (Namespace pod, Name pod)]\<rparr>))
   \<and> ((IsNotFound (err_of (podLister c (Namespace pod) (Name pod)))
         \<or> err_of (podLister c (Namespace pod) (Name pod)) = None \<and> \<not> IsZero (DeletionTimestamp pod))
        \<and> namespaces \<noteq> {} \<longrightarrow>
      syncPod M pod c =
        (fst (processDeletePod M pod namespaces m1),
         c\<lparr>mgr := snd (processDeletePod M pod namespaces m1),
           mgr_calls := mgr_calls c @ [FilterNamespacesUsingPodGateway (Namespace pod, Name pod),
             ProcessDeletePod pod namespaces]\<rparr>))
   \<and> (err_of (podLister c (Namespace pod) (Name pod)) = None \<and> IsZero (DeletionTimestamp pod)
        \<and> namespaces = {} \<longrightarrow>
      syncPod M pod c =
        (fst (processAddPod M pod m1),
         c\<lparr>mgr := snd (processAddPod M pod m1),
           mgr_calls := mgr_calls c @ [FilterNamespacesUsingPodGateway (Namespace pod, Name pod),
             ProcessAddPod pod]\<rparr>))
   \<and> (err_of (podLister c (Namespace pod) (Name pod)) = None \<and> IsZero (DeletionTimestamp pod)
        \<and> namespaces \<noteq> {} \<longrightarrow>
      syncPod M pod c =
        (fst (processUpdatePod M pod namespaces m1),
         c\<lparr>mgr := snd (processUpdatePod M pod namespaces m1),
           mgr_calls := mgr_calls c @ [FilterNamespacesUsingPodGateway (Namespace pod, Name pod),
             ProcessUpdatePod pod namespaces]\<rparr>))"
  using assms
  by (auto simp add: syncPod_def call_def IsNotFound_def Let_def split: prod.splits)

text \<open>
  A pod that is gone and was no gateway; the gateway \<open>gw1\<close> being deleted; the new pod
  \<open>web\<close>; the gateway \<open>gw1\<close> alive; a pod whose lookup fails.
\<close>

theorem syncPod_dispatch_witness:
  "syncPod exampleManager (examplePod ''ns1'' ''deleted'') exampleController =
      (None, exampleController\<lparr>mgr_calls := [FilterNamespacesUsingPodGateway (''ns1'', ''deleted'')]\<rparr>)
   \<and> syncPod exampleManager ((examplePod ''ns1'' ''gw1'')\<lparr>DeletionTimestamp := Some 5\<rparr>) exampleController =
      (None, exampleController\<lparr>mgr_calls := [FilterNamespacesUsingPodGateway (''ns1'', ''gw1''),
         ProcessDeletePod ((examplePod ''ns1'' ''gw1'')\<lparr>DeletionTimestamp := Some 5\<rparr>) {''ns1''}]\<rparr>)
   \<and> syncPod exampleManager (examplePod ''ns1'' ''web'') exampleController =
      (None, exampleController\<lparr>mgr_calls := [FilterNamespacesUsingPodGateway (''ns1'', ''web''),
         ProcessAddPod (examplePod ''ns1'' ''web'')]\<rparr>)
   \<and> syncPod exampleManager (examplePod ''ns1'' ''gw1'') exampleController =
      (None, exampleController\<lparr>mgr_calls := [FilterNamespacesUsingPodGateway (''ns1'', ''gw1''),
         ProcessUpdatePod (examplePod ''ns1'' ''gw1'') {''ns1''}]\<rparr>)
   \<and> syncPod exampleManager (examplePod ''ns1'' ''unreachable'') exampleController =
      (Some (Failure ''lister failed''), exampleController)"
  using syncPod_dispatch [of exampleManager "examplePod ''ns1'' ''deleted''" exampleController "{}" "mgr exampleController"]
    syncPod_dispatch [of exampleManager "(examplePod ''ns1'' ''gw1'')\<lparr>DeletionTimestamp := Some 5\<rparr>" exampleController
       "{''ns1''}" "mgr exampleController"]
    syncPod_dispatch [of exampleManager "examplePod ''ns1'' ''web''" exampleController "{}" "mgr exampleController"]
    syncPod_dispatch [of exampleManager "examplePod ''ns1'' ''gw1''" exampleController "{''ns1''}" "mgr exampleController"]
    syncPod_dispatch [of exampleManager "examplePod ''ns1'' ''unreachable''" exampleController "{}" "mgr exampleController"]
  by (simp add: exampleManager_def exampleController_def examplePod_def err_of_def IsNotFound_def IsZero_def)

subsection \<open>C7: which pod events are queued\<close>

text \<open>
  C7: an added pod is put on the pod queue if and only if it has a pod IP or a non-empty
  network status annotation; an updated pod if and only if its labels, its pod IPs or its
  network status annotation differ from the old pod's; a deleted pod always, also when it
  comes wrapped in \<^verbatim>\<open>DeletedFinalStateUnknown\<close>. Nothing else is put on the queue.
\<close>

theorem pod_admission_filters:
  "new_calls (podQueue c) (podQueue (onPodAdd Q (PodPtr (Some pod)) c)) =
      (if 0 < len (PodIPs pod) \<or> index (Annotations pod) NetworkStatusAnnot \<noteq> [] then [Add pod] else [])
   \<and> new_calls (podQueue c) (podQueue (onPodUpdate Q (PodPtr (Some old)) (PodPtr (Some new)) c)) =
      (if Labels old \<noteq> Labels new \<or> PodIPs old \<noteq> PodIPs new
          \<or> index (Annotations old) NetworkStatusAnnot \<noteq> index (Annotations new) NetworkStatusAnnot
       then [Add new] else [])
   \<and> new_calls (podQueue c) (podQueue (onPodDelete Q (PodPtr (Some pod)) c)) = [Add pod]
   \<and> new_calls (podQueue c) (podQueue (onPodDelete Q (DeletedFinalStateUnknown key (PodPtr (Some pod))) c)) = [Add pod]"
  by (simp add: onPodAdd_def onPodUpdate_def onPodDelete_def new_calls_def Add_item_def)

text \<open>
  The pod \<open>gw1\<close> added with and without an IP, updated with a new IP and with a new
  resource version only, and deleted as a tombstone.
\<close>

theorem pod_admission_filters_witness:
  "new_calls (podQueue exampleController)
      (podQueue (onPodAdd (exampleQueue (examplePod ''ns1'' ''gw1'')) (PodPtr (Some (examplePod ''ns1'' ''gw1'')))
         exampleController)) = [Add (examplePod ''ns1'' ''gw1'')]
   \<and> new_calls (podQueue exampleController)
      (podQueue (onPodAdd (exampleQueue (examplePod ''ns1'' ''gw1''))
         (PodPtr (Some ((examplePod ''ns1'' ''gw1'')\<lparr>PodIPs := None\<rparr>))) exampleController)) = []
   \<and> new_calls (podQueue exampleController)
      (podQueue (onPodUpdate (exampleQueue (examplePod ''ns1'' ''gw1'')) (PodPtr (Some (examplePod ''ns1'' ''gw1'')))
         (PodPtr (Some ((examplePod ''ns1'' ''gw1'')\<lparr>PodIPs := Some [''192.168.1.10'']\<rparr>))) exampleController))
       = [Add ((examplePod ''ns1'' ''gw1'')\<lparr>PodIPs := Some [''192.168.1.10'']\<rparr>)]
   \<and> new_calls (podQueue exampleController)
      (podQueue (onPodUpdate (exampleQueue (examplePod ''ns1'' ''gw1'')) (PodPtr (Some (examplePod ''ns1'' ''gw1'')))
         (PodPtr (Some ((examplePod ''ns1'' ''gw1'')\<lparr>ResourceVersion := ''2''\<rparr>))) exampleController)) = []
   \<and> new_calls (podQueue exampleController)
      (podQueue (onPodDelete (exampleQueue (examplePod ''ns1'' ''gw1''))
         (DeletedFinalStateUnknown ''ns1/gw1'' (PodPtr (Some (examplePod ''ns1'' ''gw1'')))) exampleController))
       = [Add (examplePod ''ns1'' ''gw1'')]"
  using pod_admission_filters [of exampleController "exampleQueue (examplePod ''ns1'' ''gw1'')" "examplePod ''ns1'' ''gw1''"
      "examplePod ''ns1'' ''gw1''" "(examplePod ''ns1'' ''gw1'')\<lparr>PodIPs := Some [''192.168.1.10'']\<rparr>" "''ns1/gw1''"]
    pod_admission_filters [of exampleController "exampleQueue (examplePod ''ns1'' ''gw1'')" "(examplePod ''ns1'' ''gw1'')\<lparr>PodIPs := None\<rparr>"
      "examplePod ''ns1'' ''gw1''" "(examplePod ''ns1'' ''gw1'')\<lparr>ResourceVersion := ''2''\<rparr>" "''ns1/gw1''"]
  by (simp add: examplePod_def len_def index_def)

subsection \<open>C8: the gateway IPs of a namespace\<close>

text \<open>
  C8: when both lookups succeed, \<^verbatim>\<open>GetAdminPolicyBasedExternalRouteIPsForTargetNamespace\<close>
  returns the union of the dynamic and the static gateway IPs of the namespace, and no
  error.
\<close>

theorem gateway_ips_union:
  assumes "getDynamicGatewayIPsForTargetNamespace M n (mgr c) = ((dyn, None), m1)"
    and "getStaticGatewayIPsForTargetNamespace M n m1 = ((stat, None), m2)"
  shows "GetAdminPolicyBasedExternalRouteIPsForTargetNamespace M n c =
    ((Some (dyn \<union> stat), None),
      c\<lparr>mgr := m2, mgr_calls := mgr_calls c @ [GetDynamicGatewayIPsForTargetNamespace n,
        GetStaticGatewayIPsForTargetNamespace n]\<rparr>)"
  using assms
  by (simp add: GetAdminPolicyBasedExternalRouteIPsForTargetNamespace_def call_def)

text \<open>
  The namespace \<open>ns1\<close> of the example manager: one dynamic and one static gateway IP.
\<close>

theorem gateway_ips_union_witness:
  "fst (GetAdminPolicyBasedExternalRouteIPsForTargetNamespace exampleManager ''ns1'' exampleController)
     = (Some {''192.168.1.9'', ''10.0.0.5''}, None)"
  using gateway_ips_union [of exampleManager "''ns1''" exampleController "{''192.168.1.9''}"
       "mgr exampleController" "{''10.0.0.5''}" "mgr exampleController"]
  by (auto simp add: exampleManager_def)

subsection \<open>C9: no partial union\<close>

text \<open>
  C9: when the dynamic lookup fails, the static lookup is not called and the result is the
  nil set with the dynamic lookup's error; when the static lookup fails, the result is the
  nil set with its error; and whenever an error is returned the set is nil.
\<close>

theorem gateway_ips_error_no_partial_union:
  assumes "getDynamicGatewayIPsForTargetNamespace M n (mgr c) = ((dyn, e1), m1)"
    and "getStaticGatewayIPsForTargetNamespace M n m1 = ((stat, e2), m2)"
  shows "(e1 \<noteq> None \<longrightarrow>
      GetAdminPolicyBasedExternalRouteIPsForTargetNamespace M n c =
        ((None, e1), c\<lparr>mgr := m1, mgr_calls := mgr_calls c @ [GetDynamicGatewayIPsForTargetNamespace n]\<rparr>))
    \<and> (e1 = None \<and> e2 \<noteq> None \<longrightarrow>
      GetAdminPolicyBasedExternalRouteIPsForTargetNamespace M n c =
        ((None, e2), c\<lparr>mgr := m2, mgr_calls := mgr_calls c @ [GetDynamicGatewayIPsForTargetNamespace n,
        GetStaticGatewayIPsForTargetNamespace n]\<rparr>))
    \<and> (snd (fst (GetAdminPolicyBasedExternalRouteIPsForTargetNamespace M n c)) \<noteq> None \<longrightarrow>
        fst (fst (GetAdminPolicyBasedExternalRouteIPsForTargetNamespace M n c)) = None)"
  using assms
  by (auto simp add: GetAdminPolicyBasedExternalRouteIPsForTargetNamespace_def call_def)

text \<open>
  The namespace \<open>unknown\<close>, whose dynamic lookup fails, and \<open>ns4\<close>, whose static lookup
  fails.
\<close>

theorem gateway_ips_error_no_partial_union_witness:
  "GetAdminPolicyBasedExternalRouteIPsForTargetNamespace exampleManager ''unknown'' exampleController =
     ((None, Some (Failure ''lookup failed'')),
      exampleController\<lparr>mgr_calls := [GetDynamicGatewayIPsForTargetNamespace ''unknown'']\<rparr>)
   \<and> GetAdminPolicyBasedExternalRouteIPsForTargetNamespace exampleManager ''ns4'' exampleController =
     ((None, Some (Failure ''static lookup failed'')),
      exampleController\<lparr>mgr_calls := [GetDynamicGatewayIPsForTargetNamespace ''ns4'',
        GetStaticGatewayIPsForTargetNamespace ''ns4'']\<rparr>)"
  using gateway_ips_error_no_partial_union [of exampleManager "''unknown''" exampleController "{}" "Some (Failure ''lookup failed'')"
       "mgr exampleController" "{''10.0.0.5''}" None "mgr exampleController"]
    gateway_ips_error_no_partial_union [of exampleManager "''ns4''" exampleController "{}" None
       "mgr exampleController" "{}" "Some (Failure ''static lookup failed'')" "mgr exampleController"]
  by (simp add: exampleManager_def exampleController_def)

subsection \<open>C10: when Forget is called\<close>

text \<open>
  C10: in each worker, \<^verbatim>\<open>Forget\<close> is called on the item exactly when the sync returned nil
  or the sync returned an error with \<^verbatim>\<open>NumRequeues\<close> not below \<^verbatim>\<open>maxRetries\<close>; and it is
  left out exactly when the item is re-added with \<^verbatim>\<open>AddRateLimited\<close>. (For the namespace
  worker: when \<^verbatim>\<open>syncNamespace\<close> returns.)
\<close>

theorem workers_forget_unless_requeued:
  "(Get_item Qr (routeQueue c) = (Item policy, qr) \<longrightarrow>
      (Forget policy \<in> set (new_calls (routeQueue c) (routeQueue (snd (processNextPolicyWorkItem M Qr maxRetries c))))
        \<longleftrightarrow> fst (syncRoutePolicy M policy (c\<lparr>routeQueue := qr\<rparr>)) = None
            \<or> \<not> q_NumRequeues Qr policy (state qr) < maxRetries)
      \<and> (Forget policy \<notin> set (new_calls (routeQueue c) (routeQueue (snd (processNextPolicyWorkItem M Qr maxRetries c))))
        \<longleftrightarrow> AddRateLimited policy
            \<in> set (new_calls (routeQueue c) (routeQueue (snd (processNextPolicyWorkItem M Qr maxRetries c))))))
   \<and> (Get_item Qn (namespaceQueue c) = (Item namespace, qn)
        \<and> fst (syncNamespace M namespace (c\<lparr>namespaceQueue := qn\<rparr>)) = Returns err \<longrightarrow>
      (Forget namespace
          \<in> set (new_calls (namespaceQueue c) (namespaceQueue (snd (processNextNamespaceWorkItem M Qn maxRetries c))))
        \<longleftrightarrow> err = None \<or> \<not> q_NumRequeues Qn namespace (state qn) < maxRetries)
      \<and> (Forget namespace
          \<notin> set (new_calls (namespaceQueue c) (namespaceQueue (snd (processNextNamespaceWorkItem M Qn maxRetries c))))
        \<longleftrightarrow> AddRateLimited namespace
            \<in> set (new_calls (namespaceQueue c) (namespaceQueue (snd (processNextNamespaceWorkItem M Qn maxRetries c))))))
   \<and> (Get_item Qp (podQueue c) = (Item pod, qp) \<longrightarrow>
      (Forget pod \<in> set (new_calls (podQueue c) (podQueue (snd (processNextPodWorkItem M Qp maxRetries c))))
        \<longleftrightarrow> fst (syncPod M pod (c\<lparr>podQueue := qp\<rparr>)) = None
            \<or> \<not> q_NumRequeues Qp pod (state qp) < maxRetries)
      \<and> (Forget pod \<notin> set (new_calls (podQueue c) (podQueue (snd (processNextPodWorkItem M Qp maxRetries c))))
        \<longleftrightarrow> AddRateLimited pod
            \<in> set (new_calls (podQueue c) (podQueue (snd (processNextPodWorkItem M Qp maxRetries c))))))"
proof -
  have r: "Get_item Qr (routeQueue c) = (Item policy, qr) \<Longrightarrow>
      new_calls (routeQueue c) (routeQueue (snd (processNextPolicyWorkItem M Qr maxRetries c))) =
        (case fst (syncRoutePolicy M policy (c\<lparr>routeQueue := qr\<rparr>)) of
          None \<Rightarrow> [Get, Forget policy, Done policy]
        | Some e \<Rightarrow>
            if q_NumRequeues Qr policy (state qr) < maxRetries
            then [Get, NumRequeues policy, AddRateLimited policy, Done policy]
            else [Get, NumRequeues policy, Forget policy, Done policy])"
    by (rule policy_worker_calls)
  have n: "Get_item Qn (namespaceQueue c) = (Item namespace, qn) \<Longrightarrow>
      new_calls (namespaceQueue c) (namespaceQueue (snd (processNextNamespaceWorkItem M Qn maxRetries c))) =
        (case fst (syncNamespace M namespace (c\<lparr>namespaceQueue := qn\<rparr>)) of
          Panics \<Rightarrow> [Get, Done namespace]
        | Returns None \<Rightarrow> [Get, Forget namespace, Done namespace]
        | Returns (Some e) \<Rightarrow>
            if q_NumRequeues Qn namespace (state qn) < maxRetries
            then [Get, NumRequeues namespace, AddRateLimited namespace, Done namespace]
            else [Get, NumRequeues namespace, Forget namespace, Done namespace])"
    by (rule namespace_worker_calls)
  have p: "Get_item Qp (podQueue c) = (Item pod, qp) \<Longrightarrow>
      new_calls (podQueue c) (podQueue (snd (processNextPodWorkItem M Qp maxRetries c))) =
        (case fst (syncPod M pod (c\<lparr>podQueue := qp\<rparr>)) of
          None \<Rightarrow> [Get, Forget pod, Done pod]
        | Some e \<Rightarrow>
            if q_NumRequeues Qp pod (state qp) < maxRetries
            then [Get, NumRequeues pod, AddRateLimited pod, Done pod]
            else [Get, NumRequeues pod, Forget pod, Done pod])"
    by (rule pod_worker_calls)
  show ?thesis
    by (intro conjI impI) (auto simp add: r n p split: option.splits)
qed

text \<open>
  The three items of the witness of C4: re-added and not forgotten; dropped and forgotten;
  synced and forgotten.
\<close>

theorem workers_forget_unless_requeued_witness:
  "Forget (examplePolicy ''failing'') \<notin> set (new_calls (routeQueue exampleController)
      (routeQueue (snd (processNextPolicyWorkItem exampleManager (exampleQueue (examplePolicy ''failing'')) 15
         exampleController))))
   \<and> AddRateLimited (examplePolicy ''failing'') \<in> set (new_calls (routeQueue exampleController)
      (routeQueue (snd (processNextPolicyWorkItem exampleManager (exampleQueue (examplePolicy ''failing'')) 15
         exampleController))))
   \<and> Forget (exampleNamespace ''ns1'')
       \<in> set (new_calls (namespaceQueue exhaustedController)
      (namespaceQueue (snd (processNextNamespaceWorkItem exampleManager (exampleQueue (exampleNamespace ''ns1'')) 15
         exhaustedController))))
   \<and> Forget (examplePod ''ns1'' ''web'') \<in> set (new_calls (podQueue exampleController)
      (podQueue (snd (processNextPodWorkItem exampleManager (exampleQueue (examplePod ''ns1'' ''web'')) 15
         exampleController))))"
proof -
  have evals:
    "Get_item (exampleQueue (examplePolicy ''failing'')) (routeQueue exampleController)
       = (Item (examplePolicy ''failing''), \<lparr>state = 0, calls = [Get]\<rparr>)"
    "fst (syncRoutePolicy exampleManager (examplePolicy ''failing'')
       (exampleController\<lparr>routeQueue := \<lparr>state = 0, calls = [Get]\<rparr>\<rparr>)) \<noteq> None"
    "Get_item (exampleQueue (exampleNamespace ''ns1''))
       (namespaceQueue exhaustedController)
       = (Item (exampleNamespace ''ns1''), \<lparr>state = 15, calls = [Get]\<rparr>)"
    "fst (syncNamespace exampleManager (exampleNamespace ''ns1'')
       (exhaustedController\<lparr>namespaceQueue := \<lparr>state = 15, calls = [Get]\<rparr>\<rparr>))
       = Returns (Some (Failure ''cannot add namespace ns1 because it is currently being deleted''))"
    "Get_item (exampleQueue (examplePod ''ns1'' ''web'')) (podQueue exampleController)
       = (Item (examplePod ''ns1'' ''web''), \<lparr>state = 0, calls = [Get]\<rparr>)"
    "fst (syncPod exampleManager (examplePod ''ns1'' ''web'')
       (exampleController\<lparr>podQueue := \<lparr>state = 0, calls = [Get]\<rparr>\<rparr>)) = None"
    "q_NumRequeues (exampleQueue (examplePolicy ''failing'')) (examplePolicy ''failing'') 0 = 0"
    "q_NumRequeues (exampleQueue (exampleNamespace ''ns1'')) (exampleNamespace ''ns1'') 15 = 15"
    by (simp_all add: exampleManager_def exampleController_def tombstonedController_def exhaustedController_def exampleQueue_def
      examplePolicy_def exampleNamespace_def examplePod_def Get_item_def
      syncRoutePolicy_def syncNamespace_def syncNamespace_deferred_def syncPod_def call_def report_def wrap_def
      err_of_def IsNotFound_def IsZero_def)
  show ?thesis
    using workers_forget_unless_requeued [where c = exampleController and M = exampleManager and maxRetries = 15
        and Qr = "exampleQueue (examplePolicy ''failing'')" and policy = "examplePolicy ''failing''"
        and qr = "\<lparr>state = 0, calls = [Get]\<rparr>", THEN conjunct1]
      workers_forget_unless_requeued [where c = exhaustedController
        and M = exampleManager and maxRetries = 15
        and Qn = "exampleQueue (exampleNamespace ''ns1'')" and namespace = "exampleNamespace ''ns1''"
        and qn = "\<lparr>state = 15, calls = [Get]\<rparr>"
        and err = "Some (Failure ''cannot add namespace ns1 because it is currently being deleted'')",
        THEN conjunct2, THEN conjunct1]
      workers_forget_unless_requeued [where c = exampleController and M = exampleManager and maxRetries = 15
        and Qp = "exampleQueue (examplePod ''ns1'' ''web'')" and pod = "examplePod ''ns1'' ''web''"
        and qp = "\<lparr>state = 0, calls = [Get]\<rparr>", THEN conjunct2, THEN conjunct2]
    by (auto simp add: evals)
qed

end
